theory Spec2Isabelle
  imports Main "HOL-Library.Word"
begin

unbundle bit_operations_syntax

section \<open>Wave6 stateful encoder: data model\<close>

text \<open>
  Shallow embedding of \<^verbatim>\<open>drivers/mxc/vpu/wave6/wave6-vpu-enc.c\<close>.
  The C types \<^verbatim>\<open>u32\<close> and \<^verbatim>\<open>unsigned char\<close> are machine words, so every
  addition, subtraction and multiplication below wraps as it does in C.
  A signed 32-bit value (\<^verbatim>\<open>s32\<close>, \<^verbatim>\<open>int\<close>) is kept as its bit pattern and
  read with \<open>sint\<close>; a \<^verbatim>\<open>dma_addr_t\<close> is a 64-bit word.
\<close>

type_synonym u8 = "8 word"
type_synonym u32 = "32 word"
type_synonym dma_addr_t = "64 word"

text \<open>
  Constants of \<^verbatim>\<open>wave6-vpuconfig.h\<close> and \<^verbatim>\<open>wave6-vpuapi.h\<close>. The headers are
  not part of the sources at hand, so the constants are parameters of the model.
\<close>

record wave6_config =
  W6_ENC_CROP_X_POS_STEP :: u32
  W6_ENC_CROP_Y_POS_STEP :: u32
  W6_ENC_PIC_SIZE_STEP :: u32
  W6_ENC_CTU_WIDTH_ALIGNMENT :: u32
  RECON_IDX_FLAG_ENC_END :: u32

subsection \<open>Kernel arithmetic macros\<close>

text \<open>
  Modelled from the spec: the macros \<^verbatim>\<open>round_down\<close>, \<^verbatim>\<open>round_up\<close>,
  \<^verbatim>\<open>DIV_ROUND_UP\<close> and \<^verbatim>\<open>ALIGN\<close> of the kernel headers are not under src/.
  The spec names them round_down, round_up, ceiling-division and align-up; on
  \<^verbatim>\<open>u32\<close> operands the kernel computes them as
  \<^verbatim>\<open>x & ~(y - 1)\<close>, \<^verbatim>\<open>((x - 1) | (y - 1)) + 1\<close>, \<^verbatim>\<open>(n + d - 1) / d\<close> and
  \<^verbatim>\<open>(x + (a - 1)) & ~(a - 1)\<close>, all in 32-bit unsigned arithmetic.
\<close>

definition round_down :: "u32 \<Rightarrow> u32 \<Rightarrow> u32" where
  "round_down x y = x AND NOT (y - 1)"


definition DIV_ROUND_UP :: "u32 \<Rightarrow> u32 \<Rightarrow> u32" where
  "DIV_ROUND_UP n d = (n + d - 1) div d"

definition ALIGN :: "u32 \<Rightarrow> u32 \<Rightarrow> u32" where
  "ALIGN x a = (x + (a - 1)) AND NOT (a - 1)"

subsection \<open>Rectangles, areas and the ROI geometry\<close>

text \<open>
  \<^verbatim>\<open>struct v4l2_rect\<close>: \<^verbatim>\<open>left\<close> and \<^verbatim>\<open>top\<close> are \<^verbatim>\<open>__s32\<close>, kept as their
  bit patterns (\<^verbatim>\<open>wave6_update_crop_info\<close> computes them as \<^verbatim>\<open>u32\<close>);
  \<^verbatim>\<open>width\<close> and \<^verbatim>\<open>height\<close> are \<^verbatim>\<open>__u32\<close>.
\<close>

record v4l2_rect =
  rect_left :: u32
  rect_top :: u32
  rect_width :: u32
  rect_height :: u32

record v4l2_area =
  area_width :: u32
  area_height :: u32

datatype codec_std = W_HEVC_ENC | W_AVC_ENC | STD_UNKNOWN

record vpu_roi_map_info =
  ctu :: v4l2_area
  group :: v4l2_area
  num_ctu_col :: u32
  num_ctu_row :: u32
  num_ctu :: u32
  num_group_col :: u32
  num_group_row :: u32
  custom_map_size :: u32

text \<open>\<^verbatim>\<open>wave6_vpu_enc_get_roi_info\<close>: the geometry of the ROI map.\<close>

definition wave6_vpu_enc_get_roi_info ::
  "wave6_config \<Rightarrow> codec_std \<Rightarrow> u32 \<Rightarrow> u32 \<Rightarrow> vpu_roi_map_info" where
  "wave6_vpu_enc_get_roi_info cfg std width height =
     (let roi_ctu = (if std = W_AVC_ENC
                     then \<lparr>area_width = 16, area_height = 16\<rparr>
                     else \<lparr>area_width = 32, area_height = 32\<rparr>);
          roi_group = (if std = W_AVC_ENC
                       then \<lparr>area_width = 1, area_height = 1\<rparr>
                       else \<lparr>area_width = 2, area_height = 2\<rparr>);
          ctu_col = DIV_ROUND_UP width (area_width roi_ctu);
          ctu_row = DIV_ROUND_UP height (area_height roi_ctu);
          grp_width = area_width roi_ctu * area_width roi_group;
          grp_height = area_height roi_ctu * area_height roi_group;
          group_col = DIV_ROUND_UP (ALIGN width (W6_ENC_CTU_WIDTH_ALIGNMENT cfg)) grp_width;
          group_row = DIV_ROUND_UP height grp_height
      in \<lparr>ctu = roi_ctu,
          group = roi_group,
          num_ctu_col = ctu_col,
          num_ctu_row = ctu_row,
          num_ctu = ctu_col * ctu_row,
          num_group_col = group_col,
          num_group_row = group_row,
          custom_map_size =
            group_col * group_row * (area_width roi_group * area_height roi_group)\<rparr>)"

definition wave6_vpu_enc_get_internal_ctu_count ::
  "wave6_config \<Rightarrow> codec_std \<Rightarrow> u32 \<Rightarrow> u32 \<Rightarrow> u32" where
  "wave6_vpu_enc_get_internal_ctu_count cfg std width height =
     custom_map_size (wave6_vpu_enc_get_roi_info cfg std width height)"

subsection \<open>Buffers and the encoder instance\<close>

datatype vpu_instance_state =
  VPU_INST_STATE_NONE
| VPU_INST_STATE_OPEN
| VPU_INST_STATE_INIT_SEQ
| VPU_INST_STATE_PIC_RUN
| VPU_INST_STATE_STOP

datatype vb2_buffer_state = VB2_BUF_STATE_QUEUED | VB2_BUF_STATE_DONE | VB2_BUF_STATE_ERROR

datatype pixelformat =
  V4L2_PIX_FMT_YUV420
| V4L2_PIX_FMT_YUV420M
| V4L2_PIX_FMT_YUV422P
| V4L2_PIX_FMT_YUV422M
| V4L2_PIX_FMT_OTHER u32

text \<open>
  A queued buffer: the fields of \<^verbatim>\<open>struct vb2_v4l2_buffer\<close> and of the
  \<^verbatim>\<open>struct vpu_buffer\<close> around it that the encoder reads or writes.
  \<open>dma_addr0\<close>, \<open>dma_addr1\<close>, \<open>dma_addr2\<close> are what \<^verbatim>\<open>wave6_get_dma_addr\<close>
  gives for planes 0 to 2, \<open>plane_size0\<close> is \<^verbatim>\<open>vb2_plane_size(.., 0)\<close> and
  \<open>payload0\<close> the payload of plane 0.
\<close>

record vpu_buffer =
  vb_index :: u32
  dma_addr0 :: dma_addr_t
  dma_addr1 :: dma_addr_t
  dma_addr2 :: dma_addr_t
  plane_size0 :: u32
  payload0 :: u32
  vb_sequence :: u32
  vb_field :: u32
  vb_flags :: u32
  vb_timestamp :: "64 word"
  consumed :: bool
  used :: bool
  force_key_frame :: bool
  force_frame_qp :: bool
  force_i_frame_qp :: u32
  force_p_frame_qp :: u32
  force_b_frame_qp :: u32
  custom_qp_map_daddr :: dma_addr_t
  average_qp :: u32

text \<open>
  The instance. The two ready queues of the mem2mem context are lists, oldest
  buffer first; \<open>done_bufs\<close> collects, in order, every buffer handed to
  \<^verbatim>\<open>v4l2_m2m_buf_done\<close> together with the state it was completed with.
  \<open>custom_qp_map\<close> is the content of the ROI base buffer
  (\<^verbatim>\<open>custom_qp_map.vaddr\<close>, \<^verbatim>\<open>custom_qp_map.size\<close> bytes).
  \<open>roi_block_size_ctrl\<close> and \<open>min_buffers_ctrl\<close> are the values of the two V4L2
  controls the encoder writes, \<open>None\<close> when \<^verbatim>\<open>v4l2_ctrl_find\<close> finds no control.
  \<open>state_trace\<close> is a history variable: every state written so far, in order.
\<close>

record vpu_instance =
  state :: vpu_instance_state
  state_trace :: "vpu_instance_state list"
  std :: codec_std
  crop :: v4l2_rect
  codec_rect :: v4l2_rect
  src_pixelformat :: pixelformat
  src_bytesperline :: u32
  src_height :: u32
  src_num_planes :: u32
  roi_info :: vpu_roi_map_info
  roi_mode_map_delta_qp :: bool
  custom_qp_map :: "u8 list"
  roi_block_size_ctrl :: "v4l2_area option"
  min_buffers_ctrl :: "u32 option"
  sequence :: u32
  processed_buf_num :: u32
  error_buf_num :: u32
  queued_src_buf_num :: u32
  queued_dst_buf_num :: u32
  eos :: bool
  error_recovery :: bool
  src_rdy_queue :: "vpu_buffer list"
  dst_rdy_queue :: "vpu_buffer list"
  done_bufs :: "(vpu_buffer \<times> vb2_buffer_state) list"
  src_buffered :: bool
  src_queue_error :: bool
  dst_queue_error :: bool
  ar_vbuf_allocated :: bool
  frame_bufs_allocated :: bool

text \<open>
  Modelled from the spec: \<^verbatim>\<open>wave6_vpu_set_instance_state\<close> is not under src/.
  The spec describes every call as a transition of the lifecycle State to the
  given value, so the model writes the state (and extends the history variable).
\<close>

definition wave6_vpu_set_instance_state ::
  "vpu_instance \<Rightarrow> vpu_instance_state \<Rightarrow> vpu_instance" where
  "wave6_vpu_set_instance_state inst st =
     inst\<lparr>state := st, state_trace := state_trace inst @ [st]\<rparr>"

subsection \<open>Crop rectangle and ROI geometry of the instance\<close>


text \<open>
  \<^verbatim>\<open>wave6_vpu_enc_set_roi_info\<close>: \<^verbatim>\<open>memcmp\<close> of the two structures is equality
  of the records (all members are \<^verbatim>\<open>u32\<close>, there is no padding), \<^verbatim>\<open>memset\<close>
  zeroes the whole ROI base buffer.
\<close>

definition wave6_vpu_enc_set_roi_info :: "wave6_config \<Rightarrow> vpu_instance \<Rightarrow> vpu_instance" where
  "wave6_vpu_enc_set_roi_info cfg inst =
     (let roi = wave6_vpu_enc_get_roi_info cfg (std inst)
                  (rect_width (codec_rect inst)) (rect_height (codec_rect inst));
          inst1 = (if roi \<noteq> roi_info inst
                   then inst\<lparr>roi_info := roi,
                             custom_qp_map := replicate (length (custom_qp_map inst)) 0\<rparr>
                   else inst)
      in case roi_block_size_ctrl inst1 of
           None \<Rightarrow> inst1
         | Some _ \<Rightarrow> inst1\<lparr>roi_block_size_ctrl := Some (ctu roi)\<rparr>)"

subsection \<open>Writing the ROI map\<close>








section \<open>Firmware commands and the encode cycle\<close>

text \<open>
  The firmware, the allocator and the buffer-queue core are outside the file.
  What they answer during one operation is an input of the model: return codes
  are C \<^verbatim>\<open>int\<close>s (0 for success, a negative errno otherwise).
\<close>

text \<open>
  The members of the kernel's \<^verbatim>\<open>struct v4l2_format_info\<close> that the encoder
  reads (\<^verbatim>\<open>bpp[0]\<close>, \<^verbatim>\<open>bpp[1]\<close>, \<^verbatim>\<open>hdiv\<close>, \<^verbatim>\<open>vdiv\<close>), all \<^verbatim>\<open>u8\<close>.
\<close>

record v4l2_format_info =
  bpp0 :: u8
  bpp1 :: u8
  hdiv :: u8
  vdiv :: u8

datatype pic_type = PIC_TYPE_I | PIC_TYPE_P | PIC_TYPE_B | PIC_TYPE_OTHER

record enc_output_info =
  encoding_success :: bool
  enc_src_idx :: u32
  recon_frame_index :: u32
  bitstream_buffer :: dma_addr_t
  bitstream_size :: u32
  enc_pic_type :: pic_type
  avg_ctu_qp :: u32

record fw_env =
  pm_runtime_resume_ret :: int
  alloc_ar_ret :: int
  enc_open_ret :: int
  issue_seq_init_ret :: int
  issue_seq_change_ret :: int
  seq_changed :: bool
  wait_interrupt_ret :: int
  complete_seq_init_ret :: int
  min_src_frame_count :: u32
  prepare_fb_rets :: "int list"
  start_one_frame_ret :: int
  get_output_info_ret :: int
  output_info :: enc_output_info
  fmt_info :: "v4l2_format_info option"
  try_encoder_cmd_ret :: int
  peer_streaming :: bool
  both_queues_streaming :: bool

text \<open>
  \<^verbatim>\<open>wave6_vpu_enc_initialize_instance\<close>. The optional mirror and rotation side
  commands only reach the firmware and are left out. On each early exit the C
  code returns the local \<^verbatim>\<open>ret\<close>, which after a successful sequence-init
  command still holds 0.
\<close>

definition wave6_vpu_enc_initialize_instance ::
  "fw_env \<Rightarrow> vpu_instance \<Rightarrow> int \<times> vpu_instance" where
  "wave6_vpu_enc_initialize_instance env inst =
     (let ret = issue_seq_init_ret env in
      if ret \<noteq> 0 then (ret, inst)
      else if wait_interrupt_ret env < 0 then (ret, inst)
      else
        let ret = complete_seq_init_ret env in
        if ret \<noteq> 0 then (ret, inst)
        else
          let inst1 = (case min_buffers_ctrl inst of
                         None \<Rightarrow> inst
                       | Some _ \<Rightarrow> inst\<lparr>min_buffers_ctrl := Some (min_src_frame_count env)\<rparr>)
          in (0, wave6_vpu_set_instance_state inst1 VPU_INST_STATE_INIT_SEQ))"

text \<open>
  \<^verbatim>\<open>wave6_update_seq_param\<close>. The result of
  \<^verbatim>\<open>wave6_vpu_enc_complete_seq_init\<close> is not assigned in the C code, so the
  test of \<^verbatim>\<open>ret\<close> after it still sees the 0 of the sequence-change command.
\<close>

definition wave6_update_seq_param :: "fw_env \<Rightarrow> vpu_instance \<Rightarrow> int" where
  "wave6_update_seq_param env inst =
     (let ret = issue_seq_change_ret env in
      if ret \<noteq> 0 then ret
      else if \<not> seq_changed env then 0
      else if wait_interrupt_ret env < 0 then ret
      else if ret \<noteq> 0 then ret
      else 0)"

subsection \<open>Selecting buffers\<close>

fun first_unconsumed :: "vpu_buffer list \<Rightarrow> nat option" where
  "first_unconsumed [] = None"
| "first_unconsumed (b # bs) =
     (if \<not> consumed b then Some 0
      else case first_unconsumed bs of None \<Rightarrow> None | Some k \<Rightarrow> Some (Suc k))"

text \<open>
  \<^verbatim>\<open>wave6_get_valid_src_buf\<close> and \<^verbatim>\<open>wave6_get_valid_dst_buf\<close>: the position of
  the oldest buffer of the ready queue that is not marked consumed.
\<close>

definition wave6_get_valid_src_buf :: "vpu_instance \<Rightarrow> nat option" where
  "wave6_get_valid_src_buf inst = first_unconsumed (src_rdy_queue inst)"

definition wave6_get_valid_dst_buf :: "vpu_instance \<Rightarrow> nat option" where
  "wave6_get_valid_dst_buf inst = first_unconsumed (dst_rdy_queue inst)"

subsection \<open>The picture request\<close>

record frame_buffer =
  buf_y :: dma_addr_t
  buf_cb :: dma_addr_t
  buf_cr :: dma_addr_t
  fb_stride :: u32

record enc_param =
  pic_stream_buffer_addr :: dma_addr_t
  pic_stream_buffer_size :: u32
  src_end :: bool
  src_idx :: u32
  source_frame :: frame_buffer
  force_pic_type_enable :: bool
  force_pic_type_idr :: bool
  custom_roi_map_enable :: bool
  custom_map_addr :: dma_addr_t
  force_pic_qp_enable :: bool
  force_pic_qp_i :: u32
  force_pic_qp_p :: u32
  force_pic_qp_b :: u32

text \<open>The two structures after \<^verbatim>\<open>memset(.., 0, ..)\<close>.\<close>

definition zero_frame_buffer :: frame_buffer where
  "zero_frame_buffer = \<lparr>buf_y = 0, buf_cb = 0, buf_cr = 0, fb_stride = 0\<rparr>"

definition zero_enc_param :: enc_param where
  "zero_enc_param =
     \<lparr>pic_stream_buffer_addr = 0, pic_stream_buffer_size = 0, src_end = False, src_idx = 0,
      source_frame = zero_frame_buffer, force_pic_type_enable = False,
      force_pic_type_idr = False, custom_roi_map_enable = False, custom_map_addr = 0,
      force_pic_qp_enable = False, force_pic_qp_i = 0, force_pic_qp_p = 0,
      force_pic_qp_b = 0\<rparr>"

text \<open>
  C's division of \<^verbatim>\<open>int\<close>s truncates towards zero.
\<close>

definition trunc_div :: "int \<Rightarrow> int \<Rightarrow> int" where
  "trunc_div a b = sgn a * sgn b * (\<bar>a\<bar> div \<bar>b\<bar>)"

text \<open>
  \<^verbatim>\<open>wave6_update_frame_buf_addr\<close>. \<open>fmt_info\<close> is the entry of the kernel's
  format table for the source pixel format (\<open>None\<close> when there is none); its
  divisors are at least 1 in every entry of that table. The members \<^verbatim>\<open>left\<close>
  and \<^verbatim>\<open>top\<close> of the codec rectangle are \<^verbatim>\<open>__s32\<close> and the members of the
  format entry are promoted to \<^verbatim>\<open>int\<close>: a product with the \<^verbatim>\<open>u32\<close> stride is
  unsigned, and so are the divisions that follow it, while
  \<^verbatim>\<open>codec_rect.left * bpp[1] / hdiv\<close> is a signed product (wrapping, as the
  kernel is built) and a signed division. The sums are taken in \<^verbatim>\<open>u32\<close>.
\<close>

definition wave6_update_frame_buf_addr ::
  "fw_env \<Rightarrow> vpu_instance \<Rightarrow> frame_buffer \<Rightarrow> frame_buffer" where
  "wave6_update_frame_buf_addr env inst fb =
     (case fmt_info env of
        None \<Rightarrow> fb
      | Some fi \<Rightarrow>
          let stride = src_bytesperline inst;
              offset = rect_top (codec_rect inst) * stride
                       + rect_left (codec_rect inst) * ucast (bpp0 fi);
              stride2 = DIV_ROUND_UP stride (ucast (bpp0 fi)) * ucast (bpp1 fi);
              offset2 = rect_top (codec_rect inst) * stride2 div ucast (vdiv fi) div ucast (hdiv fi)
                        + of_int (trunc_div (sint (rect_left (codec_rect inst) * ucast (bpp1 fi)))
                                    (uint (hdiv fi)))
          in fb\<lparr>buf_y := buf_y fb + ucast offset,
                buf_cb := buf_cb fb + ucast offset2,
                buf_cr := buf_cr fb + ucast offset2\<rparr>)"

definition chroma_size_of :: "vpu_instance \<Rightarrow> u32" where
  "chroma_size_of inst =
     (if src_pixelformat inst = V4L2_PIX_FMT_YUV420 \<or> src_pixelformat inst = V4L2_PIX_FMT_YUV420M
      then (src_bytesperline inst div 2) * (src_height inst div 2)
      else if src_pixelformat inst = V4L2_PIX_FMT_YUV422P
              \<or> src_pixelformat inst = V4L2_PIX_FMT_YUV422M
      then src_bytesperline inst * (src_height inst div 2)
      else 0)"

text \<open>The plane addresses of the source frame, by the number of planes.\<close>

definition source_planes :: "vpu_instance \<Rightarrow> vpu_buffer \<Rightarrow> frame_buffer" where
  "source_planes inst src_buf =
     (let luma_size = src_bytesperline inst * src_height inst;
          chroma_size = chroma_size_of inst
      in if src_num_planes inst = 1
         then \<lparr>buf_y = dma_addr0 src_buf,
               buf_cb = dma_addr0 src_buf + ucast luma_size,
               buf_cr = dma_addr0 src_buf + ucast luma_size + ucast chroma_size,
               fb_stride = 0\<rparr>
         else if src_num_planes inst = 2
         then \<lparr>buf_y = dma_addr0 src_buf,
               buf_cb = dma_addr1 src_buf,
               buf_cr = dma_addr1 src_buf + ucast chroma_size,
               fb_stride = 0\<rparr>
         else if src_num_planes inst = 3
         then \<lparr>buf_y = dma_addr0 src_buf,
               buf_cb = dma_addr1 src_buf,
               buf_cr = dma_addr2 src_buf,
               fb_stride = 0\<rparr>
         else zero_frame_buffer)"

subsection \<open>Ready queues\<close>

text \<open>
  Modelled from the spec: the ready-queue helpers of the mem2mem framework
  (\<^verbatim>\<open>v4l2_m2m_src_buf_remove\<close>, \<^verbatim>\<open>v4l2_m2m_dst_buf_remove\<close>,
  \<^verbatim>\<open>v4l2_m2m_src_buf_remove_by_idx\<close>, \<^verbatim>\<open>v4l2_m2m_dst_buf_remove_by_buf\<close>,
  \<^verbatim>\<open>v4l2_m2m_buf_done\<close>) and \<^verbatim>\<open>wave6_get_dst_buf_by_addr\<close> are not under
  src/. The spec's queue interface keeps buffers oldest first and retires a
  buffer with a status; the output buffer of a completion is resolved by matching
  its bitstream address. The helpers take the queue only, never the buffer of
  the current request: \<open>remove\<close> takes the oldest buffer off a ready queue
  (nothing when the queue is empty), \<open>remove_by_idx\<close> the buffer with the given
  index, \<open>remove_by_buf\<close> the buffer at a position found before.
\<close>

definition v4l2_m2m_buf_remove :: "vpu_buffer list \<Rightarrow> (vpu_buffer \<times> vpu_buffer list) option" where
  "v4l2_m2m_buf_remove q = (case q of [] \<Rightarrow> None | b # bs \<Rightarrow> Some (b, bs))"

fun find_pos :: "('a \<Rightarrow> bool) \<Rightarrow> 'a list \<Rightarrow> nat option" where
  "find_pos P [] = None"
| "find_pos P (x # xs) =
     (if P x then Some 0
      else case find_pos P xs of None \<Rightarrow> None | Some k \<Rightarrow> Some (Suc k))"

definition remove_at :: "nat \<Rightarrow> 'a list \<Rightarrow> 'a list" where
  "remove_at k xs = take k xs @ drop (Suc k) xs"

definition v4l2_m2m_buf_remove_by_idx ::
  "vpu_buffer list \<Rightarrow> u32 \<Rightarrow> (vpu_buffer \<times> vpu_buffer list) option" where
  "v4l2_m2m_buf_remove_by_idx q idx =
     (case find_pos (\<lambda>b. vb_index b = idx) q of
        None \<Rightarrow> None
      | Some k \<Rightarrow> Some (q ! k, remove_at k q))"

definition wave6_get_dst_buf_by_addr :: "vpu_instance \<Rightarrow> dma_addr_t \<Rightarrow> nat option" where
  "wave6_get_dst_buf_by_addr inst addr = find_pos (\<lambda>b. dma_addr0 b = addr) (dst_rdy_queue inst)"

definition v4l2_m2m_buf_done ::
  "vpu_instance \<Rightarrow> vpu_buffer \<Rightarrow> vb2_buffer_state \<Rightarrow> vpu_instance" where
  "v4l2_m2m_buf_done inst b st = inst\<lparr>done_bufs := done_bufs inst @ [(b, st)]\<rparr>"

subsection \<open>\<^verbatim>\<open>wave6_vpu_enc_start_encode\<close>\<close>

text \<open>
  The result of one encode cycle: the return code, the instance afterwards and,
  when \<^verbatim>\<open>wave6_vpu_enc_start_one_frame\<close> was called, the request together with
  the instance as it was at the call.
\<close>

record start_encode_result =
  enc_ret :: int
  enc_inst :: vpu_instance
  submitted :: "(enc_param \<times> vpu_instance) option"

text \<open>The \<^verbatim>\<open>else\<close> branch of \<^verbatim>\<open>if (!src_buf)\<close>: the request for a source frame.\<close>

definition src_request ::
  "fw_env \<Rightarrow> vpu_instance \<Rightarrow> vpu_buffer \<Rightarrow> enc_param \<Rightarrow> enc_param" where
  "src_request env inst src_buf pic =
     (let fb = (wave6_update_frame_buf_addr env inst (source_planes inst src_buf))
                 \<lparr>fb_stride := src_bytesperline inst\<rparr>;
          pic1 = pic\<lparr>source_frame := fb, src_idx := vb_index src_buf\<rparr>;
          pic2 = (if force_key_frame src_buf \<or> error_recovery inst
                  then pic1\<lparr>force_pic_type_enable := True, force_pic_type_idr := True\<rparr>
                  else pic1);
          pic3 = (if roi_mode_map_delta_qp inst \<and> custom_qp_map_daddr src_buf \<noteq> 0
                  then pic2\<lparr>custom_roi_map_enable := True,
                            custom_map_addr := custom_qp_map_daddr src_buf\<rparr>
                  else pic2)
      in if force_frame_qp src_buf
         then pic3\<lparr>force_pic_qp_enable := True,
                   force_pic_qp_i := force_i_frame_qp src_buf,
                   force_pic_qp_p := force_p_frame_qp src_buf,
                   force_pic_qp_b := force_b_frame_qp src_buf\<rparr>
         else pic3)"

definition mark_consumed :: "nat \<Rightarrow> vpu_buffer list \<Rightarrow> vpu_buffer list" where
  "mark_consumed k q = q[k := (q ! k)\<lparr>consumed := True\<rparr>]"

definition mark_consumed_used :: "nat \<Rightarrow> vpu_buffer list \<Rightarrow> vpu_buffer list" where
  "mark_consumed_used k q = q[k := (q ! k)\<lparr>consumed := True, used := True\<rparr>]"

text \<open>The branch \<^verbatim>\<open>if (ret)\<close> after \<^verbatim>\<open>wave6_vpu_enc_start_one_frame\<close>.\<close>

definition submission_failed :: "vpu_instance \<Rightarrow> vpu_instance" where
  "submission_failed inst =
     (let inst1 = wave6_vpu_set_instance_state inst VPU_INST_STATE_STOP;
          inst2 = (case v4l2_m2m_buf_remove (dst_rdy_queue inst1) of
                     None \<Rightarrow> inst1
                   | Some (dst_buf, rest) \<Rightarrow>
                       v4l2_m2m_buf_done (inst1\<lparr>dst_rdy_queue := rest\<rparr>)
                         (dst_buf\<lparr>vb_sequence := sequence inst1\<rparr>) VB2_BUF_STATE_ERROR)
      in case v4l2_m2m_buf_remove (src_rdy_queue inst2) of
           None \<Rightarrow> inst2
         | Some (src_buf, rest) \<Rightarrow>
             (v4l2_m2m_buf_done (inst2\<lparr>src_rdy_queue := rest\<rparr>) src_buf VB2_BUF_STATE_ERROR)
               \<lparr>sequence := sequence inst2 + 1,
                processed_buf_num := processed_buf_num inst2 + 1,
                error_buf_num := error_buf_num inst2 + 1\<rparr>)"

text \<open>
  From the marking of the two buffers to the end of the function: \<open>src\<close> and
  \<open>dst\<close> are the positions of the selected buffers in their ready queues.
\<close>

definition submit_request ::
  "fw_env \<Rightarrow> vpu_instance \<Rightarrow> nat option \<Rightarrow> nat \<Rightarrow> enc_param \<Rightarrow> start_encode_result" where
  "submit_request env inst src dst pic =
     (let inst1 = (case src of
                     None \<Rightarrow> inst
                   | Some s \<Rightarrow> inst\<lparr>src_rdy_queue := mark_consumed s (src_rdy_queue inst)\<rparr>);
          inst2 = inst1\<lparr>dst_rdy_queue := mark_consumed_used dst (dst_rdy_queue inst1)\<rparr>;
          ret = start_one_frame_ret env
      in if ret \<noteq> 0
         then \<lparr>enc_ret = ret, enc_inst = submission_failed inst2, submitted = Some (pic, inst2)\<rparr>
         else \<lparr>enc_ret = ret, enc_inst = inst2, submitted = Some (pic, inst2)\<rparr>)"

definition wave6_vpu_enc_start_encode :: "fw_env \<Rightarrow> vpu_instance \<Rightarrow> start_encode_result" where
  "wave6_vpu_enc_start_encode env inst =
     (let ret = wave6_update_seq_param env inst in
      if ret \<noteq> 0 then \<lparr>enc_ret = ret, enc_inst = inst, submitted = None\<rparr>
      else
        case wave6_get_valid_dst_buf inst of
          None \<Rightarrow> \<lparr>enc_ret = ret, enc_inst = inst, submitted = None\<rparr>
        | Some d \<Rightarrow>
            let dst_buf = dst_rdy_queue inst ! d;
                pic = zero_enc_param\<lparr>pic_stream_buffer_addr := dma_addr0 dst_buf,
                                      pic_stream_buffer_size := plane_size0 dst_buf\<rparr>
            in case wave6_get_valid_src_buf inst of
                 None \<Rightarrow>
                   if state inst = VPU_INST_STATE_STOP
                   then submit_request env inst None d (pic\<lparr>src_end := True\<rparr>)
                   else \<lparr>enc_ret = ret, enc_inst = inst, submitted = None\<rparr>
               | Some s \<Rightarrow>
                   let src_buf = src_rdy_queue inst ! s;
                       inst1 = (if force_key_frame src_buf \<or> error_recovery inst
                                then inst\<lparr>error_recovery := False\<rparr> else inst)
                   in submit_request env inst1 (Some s) d (src_request env inst src_buf pic))"

section \<open>Completion events\<close>

text \<open>Flag and field values of the V4L2 user API (\<^verbatim>\<open>videodev2.h\<close>).\<close>

definition V4L2_BUF_FLAG_KEYFRAME :: u32 where "V4L2_BUF_FLAG_KEYFRAME = 0x00000008"
definition V4L2_BUF_FLAG_PFRAME :: u32 where "V4L2_BUF_FLAG_PFRAME = 0x00000010"
definition V4L2_BUF_FLAG_BFRAME :: u32 where "V4L2_BUF_FLAG_BFRAME = 0x00000020"
definition V4L2_BUF_FLAG_TIMECODE :: u32 where "V4L2_BUF_FLAG_TIMECODE = 0x00000100"
definition V4L2_BUF_FLAG_TSTAMP_SRC_MASK :: u32 where "V4L2_BUF_FLAG_TSTAMP_SRC_MASK = 0x00070000"
definition V4L2_BUF_FLAG_LAST :: u32 where "V4L2_BUF_FLAG_LAST = 0x00100000"
definition V4L2_FIELD_NONE :: u32 where "V4L2_FIELD_NONE = 1"

text \<open>
  Modelled from the spec: \<^verbatim>\<open>v4l2_m2m_buf_copy_metadata\<close> is not under src/. The
  spec says that it copies the buffer metadata flags from input to output; with
  the frame flags included these are the timestamp, the field and the timecode,
  timestamp-source and picture-type bits of the flags.
\<close>

definition v4l2_m2m_buf_copy_metadata :: "vpu_buffer \<Rightarrow> vpu_buffer \<Rightarrow> vpu_buffer" where
  "v4l2_m2m_buf_copy_metadata out_vb cap_vb =
     (let mask = V4L2_BUF_FLAG_TIMECODE OR V4L2_BUF_FLAG_TSTAMP_SRC_MASK
                 OR V4L2_BUF_FLAG_KEYFRAME OR V4L2_BUF_FLAG_PFRAME OR V4L2_BUF_FLAG_BFRAME
      in cap_vb\<lparr>vb_timestamp := vb_timestamp out_vb,
                vb_field := vb_field out_vb,
                vb_flags := (vb_flags cap_vb AND NOT mask) OR (vb_flags out_vb AND mask)\<rparr>)"

definition pic_type_flag :: "pic_type \<Rightarrow> u32" where
  "pic_type_flag t =
     (case t of
        PIC_TYPE_I \<Rightarrow> V4L2_BUF_FLAG_KEYFRAME
      | PIC_TYPE_P \<Rightarrow> V4L2_BUF_FLAG_PFRAME
      | PIC_TYPE_B \<Rightarrow> V4L2_BUF_FLAG_BFRAME
      | PIC_TYPE_OTHER \<Rightarrow> 0)"

text \<open>
  \<^verbatim>\<open>wave6_handle_encoded_frame\<close>. The time stamps and the performance
  telemetry of the output buffer are left out.
\<close>

definition wave6_handle_encoded_frame :: "vpu_instance \<Rightarrow> enc_output_info \<Rightarrow> vpu_instance" where
  "wave6_handle_encoded_frame inst info =
     (let st = (if encoding_success info then VB2_BUF_STATE_DONE else VB2_BUF_STATE_ERROR) in
      case v4l2_m2m_buf_remove_by_idx (src_rdy_queue inst) (enc_src_idx info) of
        None \<Rightarrow> inst
      | Some (src_buf, src_rest) \<Rightarrow>
          let inst1 = inst\<lparr>src_rdy_queue := src_rest\<rparr> in
          if \<not> consumed src_buf then inst1
          else
            case wave6_get_dst_buf_by_addr inst1 (bitstream_buffer info) of
              None \<Rightarrow> inst1
            | Some k \<Rightarrow>
                let dst0 = (dst_rdy_queue inst1 ! k)\<lparr>average_qp := avg_ctu_qp info\<rparr>;
                    dst1 = v4l2_m2m_buf_copy_metadata src_buf dst0;
                    inst2 = v4l2_m2m_buf_done inst1 src_buf st;
                    dst2 = dst1\<lparr>payload0 := bitstream_size info,
                                vb_sequence := sequence inst2,
                                vb_field := V4L2_FIELD_NONE,
                                vb_flags := vb_flags dst1 OR pic_type_flag (enc_pic_type info)\<rparr>;
                    inst3 = inst2\<lparr>sequence := sequence inst2 + 1,
                                  dst_rdy_queue := remove_at k (dst_rdy_queue inst2)\<rparr>;
                    inst4 = (if st = VB2_BUF_STATE_ERROR
                             then inst3\<lparr>error_recovery := True,
                                       error_buf_num := error_buf_num inst3 + 1\<rparr>
                             else inst3);
                    inst5 = v4l2_m2m_buf_done inst4 dst2 st
                in inst5\<lparr>processed_buf_num := processed_buf_num inst5 + 1\<rparr>)"

text \<open>\<^verbatim>\<open>wave6_handle_last_frame\<close>\<close>

definition wave6_handle_last_frame :: "vpu_instance \<Rightarrow> dma_addr_t \<Rightarrow> vpu_instance" where
  "wave6_handle_last_frame inst addr =
     (case wave6_get_dst_buf_by_addr inst addr of
        None \<Rightarrow> inst
      | Some k \<Rightarrow>
          let dst_buf = (dst_rdy_queue inst ! k)
                          \<lparr>payload0 := 0,
                           vb_field := V4L2_FIELD_NONE,
                           vb_flags := vb_flags (dst_rdy_queue inst ! k) OR V4L2_BUF_FLAG_LAST\<rparr>;
              inst1 = inst\<lparr>dst_rdy_queue := remove_at k (dst_rdy_queue inst)\<rparr>;
              inst2 = v4l2_m2m_buf_done inst1 dst_buf VB2_BUF_STATE_DONE;
              inst3 = wave6_vpu_set_instance_state inst2 VPU_INST_STATE_PIC_RUN
          in inst3\<lparr>eos := True, src_buffered := False\<rparr>)"

text \<open>
  \<^verbatim>\<open>wave6_vpu_enc_finish_encode\<close>. The two index fields of the output
  information are signed. \<^verbatim>\<open>wave6_vpu_finish_job\<close>, which ends the function,
  only tells the mem2mem framework that the job is over.
\<close>

definition wave6_vpu_enc_finish_encode ::
  "wave6_config \<Rightarrow> fw_env \<Rightarrow> vpu_instance \<Rightarrow> bool \<Rightarrow> vpu_instance" where
  "wave6_vpu_enc_finish_encode cfg env inst error =
     (if error
      then (wave6_vpu_set_instance_state
              (inst\<lparr>src_queue_error := True, dst_queue_error := True\<rparr>) VPU_INST_STATE_STOP)
             \<lparr>eos := True\<rparr>
      else if get_output_info_ret env \<noteq> 0 then inst
      else
        let info = output_info env in
        if 0 \<le> sint (enc_src_idx info) \<and> 0 \<le> sint (recon_frame_index info)
        then wave6_handle_encoded_frame inst info
        else if recon_frame_index info = RECON_IDX_FLAG_ENC_END cfg
        then wave6_handle_last_frame inst (bitstream_buffer info)
        else inst)"

section \<open>Lifecycle of the instance\<close>
















subsection \<open>Sequences of operations\<close>








section \<open>Notions used to state the properties\<close>


text \<open>
  An instance as \<^verbatim>\<open>kzalloc\<close> leaves it (every member zero, state
  \<^verbatim>\<open>VPU_INST_STATE_NONE\<close>), a buffer with every member zero, and a set of
  constants: powers of two for the steps and the alignment, a negative value for
  the reserved reconstruction index. They serve the concrete evaluations below.
\<close>

definition zero_rect :: v4l2_rect where
  "zero_rect = \<lparr>rect_left = 0, rect_top = 0, rect_width = 0, rect_height = 0\<rparr>"

definition zero_roi_info :: vpu_roi_map_info where
  "zero_roi_info =
     \<lparr>ctu = \<lparr>area_width = 0, area_height = 0\<rparr>, group = \<lparr>area_width = 0, area_height = 0\<rparr>,
      num_ctu_col = 0, num_ctu_row = 0, num_ctu = 0, num_group_col = 0, num_group_row = 0,
      custom_map_size = 0\<rparr>"

definition zero_instance :: vpu_instance where
  "zero_instance =
     \<lparr>state = VPU_INST_STATE_NONE, state_trace = [], std = W_HEVC_ENC,
      crop = zero_rect, codec_rect = zero_rect,
      src_pixelformat = V4L2_PIX_FMT_OTHER 0, src_bytesperline = 0, src_height = 0,
      src_num_planes = 0, roi_info = zero_roi_info, roi_mode_map_delta_qp = False,
      custom_qp_map = [], roi_block_size_ctrl = None, min_buffers_ctrl = None,
      sequence = 0, processed_buf_num = 0, error_buf_num = 0,
      queued_src_buf_num = 0, queued_dst_buf_num = 0, eos = False, error_recovery = False,
      src_rdy_queue = [], dst_rdy_queue = [], done_bufs = [], src_buffered = False,
      src_queue_error = False, dst_queue_error = False, ar_vbuf_allocated = False,
      frame_bufs_allocated = False\<rparr>"

definition zero_buffer :: vpu_buffer where
  "zero_buffer =
     \<lparr>vb_index = 0, dma_addr0 = 0, dma_addr1 = 0, dma_addr2 = 0, plane_size0 = 0,
      payload0 = 0, vb_sequence = 0, vb_field = 0, vb_flags = 0, vb_timestamp = 0,
      consumed = False, used = False, force_key_frame = False, force_frame_qp = False,
      force_i_frame_qp = 0, force_p_frame_qp = 0, force_b_frame_qp = 0,
      custom_qp_map_daddr = 0, average_qp = 0\<rparr>"

definition sample_config :: wave6_config where
  "sample_config =
     \<lparr>W6_ENC_CROP_X_POS_STEP = 32, W6_ENC_CROP_Y_POS_STEP = 2, W6_ENC_PIC_SIZE_STEP = 8,
      W6_ENC_CTU_WIDTH_ALIGNMENT = 64, RECON_IDX_FLAG_ENC_END = - 1\<rparr>"

definition zero_output_info :: enc_output_info where
  "zero_output_info =
     \<lparr>encoding_success = False, enc_src_idx = 0, recon_frame_index = 0, bitstream_buffer = 0,
      bitstream_size = 0, enc_pic_type = PIC_TYPE_I, avg_ctu_qp = 0\<rparr>"

text \<open>An environment in which every call succeeds and both queues are streaming.\<close>

definition ok_env :: fw_env where
  "ok_env =
     \<lparr>pm_runtime_resume_ret = 0, alloc_ar_ret = 0, enc_open_ret = 0, issue_seq_init_ret = 0,
      issue_seq_change_ret = 0, seq_changed = False, wait_interrupt_ret = 0,
      complete_seq_init_ret = 0, min_src_frame_count = 1, prepare_fb_rets = [],
      start_one_frame_ret = 0, get_output_info_ret = 0, output_info = zero_output_info,
      fmt_info = None, try_encoder_cmd_ret = 0, peer_streaming = True,
      both_queues_streaming = True\<rparr>"








text \<open>
  \<open>event_resolves inst info\<close>: the completion event \<open>info\<close> names a source
  buffer that is queued and marked consumed, and a bitstream address that
  belongs to a queued output buffer.
\<close>

definition event_resolves :: "vpu_instance \<Rightarrow> enc_output_info \<Rightarrow> bool" where
  "event_resolves inst info =
     (case v4l2_m2m_buf_remove_by_idx (src_rdy_queue inst) (enc_src_idx info) of
        None \<Rightarrow> False
      | Some (src_buf, rest) \<Rightarrow>
          consumed src_buf \<and> wave6_get_dst_buf_by_addr inst (bitstream_buffer info) \<noteq> None)"




section \<open>Timeouts of the sequence commands\<close>

text \<open>
  Claim C1. When the sequence-init command of \<^verbatim>\<open>initialize_instance\<close> is issued
  and no completion arrives within the timeout, the operation is to return a
  failure to its caller, and likewise the sequence-change wait at the start of an
  encode cycle. The code does not: after a successful command the wait that
  times out (a negative result of \<^verbatim>\<open>wave6_vpu_wait_interrupt\<close>, here
  \<^verbatim>\<open>-ETIMEDOUT\<close>) ends both functions with return code 0, the instance left
  as it was.
\<close>

theorem timeout_returns_success:
  "fst (wave6_vpu_enc_initialize_instance
          (env\<lparr>issue_seq_init_ret := 0, wait_interrupt_ret := - 110\<rparr>) inst) = 0
   \<and> snd (wave6_vpu_enc_initialize_instance
          (env\<lparr>issue_seq_init_ret := 0, wait_interrupt_ret := - 110\<rparr>) inst) = inst
   \<and> wave6_update_seq_param
        (env\<lparr>issue_seq_change_ret := 0, seq_changed := True, wait_interrupt_ret := - 110\<rparr>)
        inst = 0"
  by (simp add: wave6_vpu_enc_initialize_instance_def wave6_update_seq_param_def)

section \<open>Crop rectangle and codec rectangle\<close>



lemma round_down_le: "round_down x y \<le> x"
  unfolding round_down_def by (rule word_and_le2)




text \<open>
  A crop rectangle that lies inside a source picture of width \<open>src\<close> has an
  extent that stays representable when rounded up, whenever the source width
  itself does.
\<close>

lemma inside_source_extent:
  fixes l w s x src :: u32
  assumes "unat l + unat w \<le> unat src" "unat src + unat s \<le> 2 ^ 32"
  shows "unat w + unat (l - round_down l x) + unat s \<le> 2 ^ 32"
proof -
  have cl: "round_down l x \<le> l" by (rule round_down_le)
  have "unat (l - round_down l x) = unat l - unat (round_down l x)" using cl by (rule unat_sub)
  then have "unat (l - round_down l x) \<le> unat l" by simp
  then show ?thesis using assms by simp
qed



section \<open>ROI geometry\<close>

lemma set_roi_info_fields:
  "roi_info (wave6_vpu_enc_set_roi_info cfg inst)
     = wave6_vpu_enc_get_roi_info cfg (std inst) (rect_width (codec_rect inst))
         (rect_height (codec_rect inst))"
  "std (wave6_vpu_enc_set_roi_info cfg inst) = std inst"
  "codec_rect (wave6_vpu_enc_set_roi_info cfg inst) = codec_rect inst"
  "roi_block_size_ctrl (wave6_vpu_enc_set_roi_info cfg inst)
     = (case roi_block_size_ctrl inst of
          None \<Rightarrow> None
        | Some a \<Rightarrow> Some (ctu (wave6_vpu_enc_get_roi_info cfg (std inst)
                                (rect_width (codec_rect inst)) (rect_height (codec_rect inst)))))"
  "custom_qp_map (wave6_vpu_enc_set_roi_info cfg inst)
     = (if wave6_vpu_enc_get_roi_info cfg (std inst) (rect_width (codec_rect inst))
             (rect_height (codec_rect inst)) \<noteq> roi_info inst
        then replicate (length (custom_qp_map inst)) 0 else custom_qp_map inst)"
  unfolding wave6_vpu_enc_set_roi_info_def Let_def
  by (simp_all split: option.split)

lemma set_roi_info_stable:
  assumes "roi_info inst = wave6_vpu_enc_get_roi_info cfg (std inst) (rect_width (codec_rect inst))
         (rect_height (codec_rect inst))"
      and "roi_block_size_ctrl inst = None \<or> roi_block_size_ctrl inst = Some (ctu (roi_info inst))"
  shows "wave6_vpu_enc_set_roi_info cfg inst = inst"
proof -
  have "wave6_vpu_enc_set_roi_info cfg inst
         = (case roi_block_size_ctrl inst of None \<Rightarrow> inst
            | Some a \<Rightarrow> inst\<lparr>roi_block_size_ctrl := Some (ctu (roi_info inst))\<rparr>)"
    unfolding wave6_vpu_enc_set_roi_info_def Let_def using assms(1)[symmetric]
    by (simp cong: option.case_cong)
  also have "\<dots> = inst"
  proof (cases "roi_block_size_ctrl inst")
    case None then show ?thesis by simp
  next
    case (Some a)
    then have "inst\<lparr>roi_block_size_ctrl := Some (ctu (roi_info inst))\<rparr>
               = inst\<lparr>roi_block_size_ctrl := roi_block_size_ctrl inst\<rparr>"
      using assms(2) by simp
    then show ?thesis using Some by simp
  qed
  finally show ?thesis .
qed

lemma set_roi_info_idem:
  "wave6_vpu_enc_set_roi_info cfg (wave6_vpu_enc_set_roi_info cfg inst)
     = wave6_vpu_enc_set_roi_info cfg inst"
  by (rule set_roi_info_stable) (simp_all add: set_roi_info_fields split: option.split)

text \<open>
  Claim C3. The ROI geometry is a function of (codec standard, width, height)
  alone: the geometry that \<^verbatim>\<open>wave6_vpu_enc_set_roi_info\<close> stores is the one
  computed from the standard and the codec rectangle, whatever else the instance
  holds, and computing it again changes nothing. When the recomputed geometry
  equals the stored one the ROI map is left untouched; when it differs, the stored
  geometry is replaced and the whole ROI map buffer is zeroed.
\<close>

theorem roi_info_update:
  fixes cfg inst
  defines "roi \<equiv> wave6_vpu_enc_get_roi_info cfg (std inst) (rect_width (codec_rect inst))
                    (rect_height (codec_rect inst))"
  defines "inst' \<equiv> wave6_vpu_enc_set_roi_info cfg inst"
  shows "roi_info inst' = roi
    \<and> (roi = roi_info inst \<longrightarrow> custom_qp_map inst' = custom_qp_map inst)
    \<and> (roi \<noteq> roi_info inst \<longrightarrow>
          custom_qp_map inst' = replicate (length (custom_qp_map inst)) 0)
    \<and> wave6_vpu_enc_set_roi_info cfg inst' = inst'
    \<and> (\<forall>other. std other = std inst \<and> codec_rect other = codec_rect inst
          \<longrightarrow> roi_info (wave6_vpu_enc_set_roi_info cfg other) = roi)"
  unfolding roi_def inst'_def
  by (simp add: set_roi_info_fields(1,5) set_roi_info_idem)

theorem roi_info_update_witness:
  "custom_qp_map (wave6_vpu_enc_set_roi_info sample_config
      (zero_instance\<lparr>codec_rect := \<lparr>rect_left = 0, rect_top = 0, rect_width = 64, rect_height = 64\<rparr>,
                     custom_qp_map := [1, 2, 3]\<rparr>)) = [0, 0, 0]
   \<and> custom_qp_map (wave6_vpu_enc_set_roi_info sample_config
         (wave6_vpu_enc_set_roi_info sample_config
           (zero_instance\<lparr>codec_rect := \<lparr>rect_left = 0, rect_top = 0, rect_width = 64, rect_height = 64\<rparr>,
                     custom_qp_map := [1, 2, 3]\<rparr>))) = [0, 0, 0]
   \<and> num_ctu (roi_info (wave6_vpu_enc_set_roi_info sample_config
      (zero_instance\<lparr>codec_rect := \<lparr>rect_left = 0, rect_top = 0, rect_width = 64, rect_height = 64\<rparr>,
                     custom_qp_map := [1, 2, 3]\<rparr>))) = 4"
  using roi_info_update[of sample_config
      "zero_instance\<lparr>codec_rect := \<lparr>rect_left = 0, rect_top = 0, rect_width = 64, rect_height = 64\<rparr>,
                     custom_qp_map := [1, 2, 3]\<rparr>"]
  by (simp add: zero_instance_def zero_roi_info_def zero_rect_def sample_config_def
        wave6_vpu_enc_get_roi_info_def DIV_ROUND_UP_def ALIGN_def)

lemma align_1920:
  assumes "k \<le> (7::nat)"
  shows "ALIGN 1920 (2 ^ k) = 1920"
proof -
  from assms have "k = 0 \<or> k = 1 \<or> k = 2 \<or> k = 3 \<or> k = 4 \<or> k = 5 \<or> k = 6 \<or> k = 7"
    by arith
  then show ?thesis by (elim disjE) (simp_all add: ALIGN_def)
qed

text \<open>
  With an alignment constant of 256 the number of group columns for a width of
  1920 is 32 instead of 30, and the map size 2176.
\<close>

lemma roi_map_size_1080p_align_256:
  "custom_map_size (wave6_vpu_enc_get_roi_info (cfg\<lparr>W6_ENC_CTU_WIDTH_ALIGNMENT := 256\<rparr>)
     W_HEVC_ENC 1920 1080) = 2176"
  by (simp add: wave6_vpu_enc_get_roi_info_def DIV_ROUND_UP_def ALIGN_def)

text \<open>
  Claim C4. In the branch of the 32x32 CTU with 2x2 groups (every standard other
  than AVC) the ROI map size of a 1920x1080 codec rectangle is
  ceil(1920/64) * ceil(1080/64) * 4 = 2040, the number of group columns being
  ceil(align\_up(1920, CTU\_WIDTH\_ALIGNMENT) / 64). The alignment constant is a
  parameter; the equality holds for each power of two up to 128.
\<close>

theorem roi_map_size_1080p:
  assumes "cstd \<noteq> W_AVC_ENC" "W6_ENC_CTU_WIDTH_ALIGNMENT cfg = 2 ^ k" "k \<le> 7"
  shows "custom_map_size (wave6_vpu_enc_get_roi_info cfg cstd 1920 1080) = 2040
     \<and> num_group_col (wave6_vpu_enc_get_roi_info cfg cstd 1920 1080)
         = DIV_ROUND_UP (ALIGN 1920 (W6_ENC_CTU_WIDTH_ALIGNMENT cfg)) 64
     \<and> unat (custom_map_size (wave6_vpu_enc_get_roi_info cfg cstd 1920 1080))
         = ((1920 + 63) div 64) * ((1080 + 63) div 64) * 4"
  using assms(1) align_1920[OF assms(3)]
  by (simp add: wave6_vpu_enc_get_roi_info_def assms(2) DIV_ROUND_UP_def)

theorem roi_map_size_1080p_witness:
  "W_HEVC_ENC \<noteq> W_AVC_ENC \<and> W6_ENC_CTU_WIDTH_ALIGNMENT sample_config = 2 ^ 6 \<and> (6::nat) \<le> 7
   \<and> custom_map_size (wave6_vpu_enc_get_roi_info sample_config W_HEVC_ENC 1920 1080) = 2040"
  using roi_map_size_1080p[of W_HEVC_ENC sample_config 6] by (simp add: sample_config_def)

section \<open>The encode cycle\<close>

lemma first_unconsumed_Some:
  "first_unconsumed q = Some k \<Longrightarrow> k < length q \<and> \<not> consumed (q ! k)"
  by (induction q arbitrary: k) (auto split: if_splits option.splits)

lemma find_pos_Some:
  "find_pos P xs = Some k \<Longrightarrow> k < length xs \<and> P (xs ! k)"
  by (induction xs arbitrary: k) (auto split: if_splits option.splits)

lemma submit_request_submitted:
  "submitted (submit_request env inst src dst pic)
     = Some (pic, (case src of None \<Rightarrow> inst
                   | Some s \<Rightarrow> inst\<lparr>src_rdy_queue := mark_consumed s (src_rdy_queue inst)\<rparr>)
                  \<lparr>dst_rdy_queue := mark_consumed_used dst (dst_rdy_queue inst)\<rparr>)"
  by (simp add: submit_request_def Let_def split: option.split)

lemma mark_consumed_nth:
  "k < length q \<Longrightarrow> consumed (mark_consumed k q ! k)"
  "k < length q \<Longrightarrow> consumed (mark_consumed_used k q ! k)"
  by (simp_all add: mark_consumed_def mark_consumed_used_def)

text \<open>
  Claim C5, as stated: in every encode cycle with an output buffer but no
  unconsumed input buffer, an end-of-stream request is submitted exactly when the
  instance state is STOP. The cycle begins with the sequence-parameter update,
  and when that fails the function leaves at once: in state STOP, with an output
  buffer queued and no input buffer, nothing is submitted.
\<close>

theorem encode_cycle_seq_change_counterexample:
  "state (zero_instance\<lparr>state := VPU_INST_STATE_STOP, dst_rdy_queue := [zero_buffer]\<rparr>)
     = VPU_INST_STATE_STOP
   \<and> wave6_get_valid_dst_buf
        (zero_instance\<lparr>state := VPU_INST_STATE_STOP, dst_rdy_queue := [zero_buffer]\<rparr>) = Some 0
   \<and> wave6_get_valid_src_buf
        (zero_instance\<lparr>state := VPU_INST_STATE_STOP, dst_rdy_queue := [zero_buffer]\<rparr>) = None
   \<and> submitted (wave6_vpu_enc_start_encode (ok_env\<lparr>issue_seq_change_ret := - 5\<rparr>)
        (zero_instance\<lparr>state := VPU_INST_STATE_STOP, dst_rdy_queue := [zero_buffer]\<rparr>)) = None"
  by (simp add: wave6_vpu_enc_start_encode_def wave6_update_seq_param_def ok_env_def
        zero_instance_def zero_buffer_def wave6_get_valid_dst_buf_def wave6_get_valid_src_buf_def)

text \<open>
  Claim C5, amended. In every encode cycle: if no unconsumed output buffer
  exists, the cycle returns without submitting any request and without marking
  any buffer consumed; if the sequence-parameter update at the start of the cycle
  fails, the cycle returns that error, again without submitting or marking; if
  an output buffer exists but no unconsumed input buffer, the cycle submits an
  end-of-stream request (source-end flag set, no source frame) when the state is
  STOP and the sequence-parameter update succeeded, and does not submit when the
  state is not STOP; and whenever a request is submitted, the selected input
  buffer (if any) and the selected output buffer are marked consumed in the
  instance handed to the submission.
\<close>

theorem encode_cycle:
  fixes env inst
  defines "r \<equiv> wave6_vpu_enc_start_encode env inst"
  shows "(wave6_get_valid_dst_buf inst = None \<longrightarrow> submitted r = None \<and> enc_inst r = inst)
   \<and> (wave6_update_seq_param env inst \<noteq> 0 \<longrightarrow>
        submitted r = None \<and> enc_inst r = inst \<and> enc_ret r = wave6_update_seq_param env inst)
   \<and> (wave6_get_valid_dst_buf inst \<noteq> None \<and> wave6_get_valid_src_buf inst = None \<longrightarrow>
        (state inst = VPU_INST_STATE_STOP \<and> wave6_update_seq_param env inst = 0 \<longrightarrow>
           (\<exists>pic i. submitted r = Some (pic, i) \<and> src_end pic
                    \<and> source_frame pic = zero_frame_buffer))
        \<and> (state inst \<noteq> VPU_INST_STATE_STOP \<longrightarrow> submitted r = None \<and> enc_inst r = inst))
   \<and> (\<forall>pic i. submitted r = Some (pic, i) \<longrightarrow>
        (\<exists>d. wave6_get_valid_dst_buf inst = Some d \<and> consumed (dst_rdy_queue i ! d))
        \<and> (\<forall>s. wave6_get_valid_src_buf inst = Some s \<longrightarrow> consumed (src_rdy_queue i ! s)))"
proof (intro conjI)
  show "wave6_get_valid_dst_buf inst = None \<longrightarrow> submitted r = None \<and> enc_inst r = inst"
    by (simp add: r_def wave6_vpu_enc_start_encode_def Let_def)
  show "wave6_update_seq_param env inst \<noteq> 0 \<longrightarrow>
        submitted r = None \<and> enc_inst r = inst \<and> enc_ret r = wave6_update_seq_param env inst"
    by (simp add: r_def wave6_vpu_enc_start_encode_def Let_def)
  show "wave6_get_valid_dst_buf inst \<noteq> None \<and> wave6_get_valid_src_buf inst = None \<longrightarrow>
        (state inst = VPU_INST_STATE_STOP \<and> wave6_update_seq_param env inst = 0 \<longrightarrow>
           (\<exists>pic i. submitted r = Some (pic, i) \<and> src_end pic
                    \<and> source_frame pic = zero_frame_buffer))
        \<and> (state inst \<noteq> VPU_INST_STATE_STOP \<longrightarrow> submitted r = None \<and> enc_inst r = inst)"
    by (auto simp add: r_def wave6_vpu_enc_start_encode_def Let_def submit_request_submitted
          zero_enc_param_def)
  show "\<forall>pic i. submitted r = Some (pic, i) \<longrightarrow>
        (\<exists>d. wave6_get_valid_dst_buf inst = Some d \<and> consumed (dst_rdy_queue i ! d))
        \<and> (\<forall>s. wave6_get_valid_src_buf inst = Some s \<longrightarrow> consumed (src_rdy_queue i ! s))"
  proof (intro allI impI)
    fix pic i assume sub: "submitted r = Some (pic, i)"
    from sub obtain d where d: "wave6_get_valid_dst_buf inst = Some d"
      by (cases "wave6_get_valid_dst_buf inst")
         (auto simp add: r_def wave6_vpu_enc_start_encode_def Let_def split: if_splits)
    then have dl: "d < length (dst_rdy_queue inst)"
      using first_unconsumed_Some by (simp add: wave6_get_valid_dst_buf_def)
    show "(\<exists>d. wave6_get_valid_dst_buf inst = Some d \<and> consumed (dst_rdy_queue i ! d))
        \<and> (\<forall>s. wave6_get_valid_src_buf inst = Some s \<longrightarrow> consumed (src_rdy_queue i ! s))"
    proof (cases "wave6_get_valid_src_buf inst")
      case None
      with sub d dl show ?thesis
        by (auto simp add: r_def wave6_vpu_enc_start_encode_def Let_def submit_request_submitted
              mark_consumed_nth split: if_splits)
    next
      case (Some s)
      then have sl: "s < length (src_rdy_queue inst)"
        using first_unconsumed_Some by (simp add: wave6_get_valid_src_buf_def)
      with Some sub d dl show ?thesis
        by (auto simp add: r_def wave6_vpu_enc_start_encode_def Let_def submit_request_submitted
              mark_consumed_nth split: if_splits)
    qed
  qed
qed

theorem encode_cycle_witness:
  "wave6_get_valid_dst_buf
     (zero_instance\<lparr>state := VPU_INST_STATE_STOP, dst_rdy_queue := [zero_buffer]\<rparr>) \<noteq> None
   \<and> wave6_get_valid_src_buf
        (zero_instance\<lparr>state := VPU_INST_STATE_STOP, dst_rdy_queue := [zero_buffer]\<rparr>) = None
   \<and> wave6_update_seq_param ok_env
        (zero_instance\<lparr>state := VPU_INST_STATE_STOP, dst_rdy_queue := [zero_buffer]\<rparr>) = 0
   \<and> (\<exists>pic i. submitted (wave6_vpu_enc_start_encode ok_env
                  (zero_instance\<lparr>state := VPU_INST_STATE_STOP, dst_rdy_queue := [zero_buffer]\<rparr>))
                = Some (pic, i)
              \<and> src_end pic \<and> source_frame pic = zero_frame_buffer
              \<and> consumed (dst_rdy_queue i ! 0))"
  using encode_cycle[of "zero_instance\<lparr>state := VPU_INST_STATE_STOP, dst_rdy_queue := [zero_buffer]\<rparr>"
                        ok_env]
  by (auto simp add: wave6_update_seq_param_def ok_env_def zero_instance_def zero_buffer_def
        wave6_get_valid_dst_buf_def wave6_get_valid_src_buf_def)

section \<open>Failure of the submission\<close>









section \<open>Completion events\<close>

text \<open>
  Claim C7. When a completion event references an input buffer index or a
  bitstream address that cannot be resolved to a queued buffer (or names an input
  buffer that was never marked consumed), the handler drops the event: the
  processed and error counters, the sequence number and the lifecycle state are
  unchanged, and no buffer is retired. This holds of
  \<^verbatim>\<open>wave6_handle_encoded_frame\<close>, and
  \<^verbatim>\<open>wave6_vpu_enc_finish_encode\<close> does nothing else with such an event.
\<close>

theorem unresolved_event_dropped:
  fixes inst info cfg env
  defines "inst' \<equiv> wave6_handle_encoded_frame inst info"
  assumes "\<not> event_resolves inst info"
  shows "processed_buf_num inst' = processed_buf_num inst
     \<and> error_buf_num inst' = error_buf_num inst
     \<and> sequence inst' = sequence inst
     \<and> state inst' = state inst
     \<and> done_bufs inst' = done_bufs inst
     \<and> (get_output_info_ret env = 0 \<and> output_info env = info
          \<and> 0 \<le> sint (enc_src_idx info) \<and> 0 \<le> sint (recon_frame_index info)
         \<longrightarrow> wave6_vpu_enc_finish_encode cfg env inst False = inst')"
  using assms(2)
  by (auto simp add: inst'_def event_resolves_def wave6_handle_encoded_frame_def Let_def
        wave6_get_dst_buf_by_addr_def wave6_vpu_enc_finish_encode_def
        split: option.splits prod.splits)

theorem unresolved_event_dropped_witness:
  "\<not> event_resolves
       (zero_instance\<lparr>state := VPU_INST_STATE_PIC_RUN, sequence := 7, processed_buf_num := 7,
                      src_rdy_queue := [zero_buffer\<lparr>vb_index := 1, consumed := True\<rparr>],
                      dst_rdy_queue := [zero_buffer\<lparr>dma_addr0 := 0x1000\<rparr>]\<rparr>)
       (zero_output_info\<lparr>encoding_success := True, enc_src_idx := 1,
                          bitstream_buffer := 0x2000\<rparr>)
   \<and> sequence (wave6_handle_encoded_frame
       (zero_instance\<lparr>state := VPU_INST_STATE_PIC_RUN, sequence := 7, processed_buf_num := 7,
                      src_rdy_queue := [zero_buffer\<lparr>vb_index := 1, consumed := True\<rparr>],
                      dst_rdy_queue := [zero_buffer\<lparr>dma_addr0 := 0x1000\<rparr>]\<rparr>)
       (zero_output_info\<lparr>encoding_success := True, enc_src_idx := 1,
                          bitstream_buffer := 0x2000\<rparr>)) = 7
   \<and> processed_buf_num (wave6_handle_encoded_frame
       (zero_instance\<lparr>state := VPU_INST_STATE_PIC_RUN, sequence := 7, processed_buf_num := 7,
                      src_rdy_queue := [zero_buffer\<lparr>vb_index := 1, consumed := True\<rparr>],
                      dst_rdy_queue := [zero_buffer\<lparr>dma_addr0 := 0x1000\<rparr>]\<rparr>)
       (zero_output_info\<lparr>encoding_success := True, enc_src_idx := 1,
                          bitstream_buffer := 0x2000\<rparr>)) = 7
   \<and> done_bufs (wave6_handle_encoded_frame
       (zero_instance\<lparr>state := VPU_INST_STATE_PIC_RUN, sequence := 7, processed_buf_num := 7,
                      src_rdy_queue := [zero_buffer\<lparr>vb_index := 1, consumed := True\<rparr>],
                      dst_rdy_queue := [zero_buffer\<lparr>dma_addr0 := 0x1000\<rparr>]\<rparr>)
       (zero_output_info\<lparr>encoding_success := True, enc_src_idx := 1,
                          bitstream_buffer := 0x2000\<rparr>)) = []"
  using unresolved_event_dropped[of
       "zero_instance\<lparr>state := VPU_INST_STATE_PIC_RUN, sequence := 7, processed_buf_num := 7,
                      src_rdy_queue := [zero_buffer\<lparr>vb_index := 1, consumed := True\<rparr>],
                      dst_rdy_queue := [zero_buffer\<lparr>dma_addr0 := 0x1000\<rparr>]\<rparr>"
       "zero_output_info\<lparr>encoding_success := True, enc_src_idx := 1,
                          bitstream_buffer := 0x2000\<rparr>"]
  by (simp add: event_resolves_def v4l2_m2m_buf_remove_by_idx_def wave6_get_dst_buf_by_addr_def
        zero_instance_def zero_buffer_def zero_output_info_def)

text \<open>
  Claim C8. When a completion event carries the reserved encode-end
  reconstruction index (a negative value, so never a normal index) and its
  bitstream address belongs to a queued output buffer, that buffer is given zero
  payload and the LAST flag, it is taken off the queue and retired as DONE, the
  instance state is set to PIC\_RUN and the end-of-stream flag is recorded; the
  processed counter and the sequence number are not advanced.
\<close>

theorem encode_end_event:
  fixes cfg env inst k
  defines "info \<equiv> output_info env"
  defines "inst' \<equiv> wave6_vpu_enc_finish_encode cfg env inst False"
  defines "b \<equiv> dst_rdy_queue inst ! k"
  assumes neg: "sint (RECON_IDX_FLAG_ENC_END cfg) < 0"
      and ok: "get_output_info_ret env = 0"
      and e: "recon_frame_index info = RECON_IDX_FLAG_ENC_END cfg"
      and a: "wave6_get_dst_buf_by_addr inst (bitstream_buffer info) = Some k"
  shows "dma_addr0 b = bitstream_buffer info
     \<and> done_bufs inst'
         = done_bufs inst @ [(b\<lparr>payload0 := 0, vb_field := V4L2_FIELD_NONE,
                                 vb_flags := vb_flags b OR V4L2_BUF_FLAG_LAST\<rparr>,
                              VB2_BUF_STATE_DONE)]
     \<and> dst_rdy_queue inst' = remove_at k (dst_rdy_queue inst)
     \<and> state inst' = VPU_INST_STATE_PIC_RUN
     \<and> eos inst'
     \<and> processed_buf_num inst' = processed_buf_num inst
     \<and> sequence inst' = sequence inst"
proof -
  have "inst' = wave6_handle_last_frame inst (bitstream_buffer info)"
    using neg ok e by (auto simp add: inst'_def info_def wave6_vpu_enc_finish_encode_def Let_def)
  moreover have "dma_addr0 b = bitstream_buffer info"
    using a find_pos_Some[of "\<lambda>b. dma_addr0 b = bitstream_buffer info" "dst_rdy_queue inst" k]
    by (simp add: wave6_get_dst_buf_by_addr_def b_def)
  ultimately show ?thesis using a
    by (simp add: wave6_handle_last_frame_def Let_def v4l2_m2m_buf_done_def
          wave6_vpu_set_instance_state_def b_def)
qed

theorem encode_end_event_witness:
  "sint (RECON_IDX_FLAG_ENC_END sample_config) < 0
   \<and> wave6_get_dst_buf_by_addr
        (zero_instance\<lparr>state := VPU_INST_STATE_STOP, sequence := 3, processed_buf_num := 3,
                       dst_rdy_queue := [zero_buffer\<lparr>dma_addr0 := 0x1000, payload0 := 5\<rparr>]\<rparr>)
        0x1000 = Some 0
   \<and> state (wave6_vpu_enc_finish_encode sample_config
        (ok_env\<lparr>output_info := zero_output_info\<lparr>enc_src_idx := - 1, recon_frame_index := - 1,
                                                   bitstream_buffer := 0x1000\<rparr>\<rparr>)
        (zero_instance\<lparr>state := VPU_INST_STATE_STOP, sequence := 3, processed_buf_num := 3,
                       dst_rdy_queue := [zero_buffer\<lparr>dma_addr0 := 0x1000, payload0 := 5\<rparr>]\<rparr>)
        False) = VPU_INST_STATE_PIC_RUN
   \<and> sequence (wave6_vpu_enc_finish_encode sample_config
        (ok_env\<lparr>output_info := zero_output_info\<lparr>enc_src_idx := - 1, recon_frame_index := - 1,
                                                   bitstream_buffer := 0x1000\<rparr>\<rparr>)
        (zero_instance\<lparr>state := VPU_INST_STATE_STOP, sequence := 3, processed_buf_num := 3,
                       dst_rdy_queue := [zero_buffer\<lparr>dma_addr0 := 0x1000, payload0 := 5\<rparr>]\<rparr>)
        False) = 3
   \<and> done_bufs (wave6_vpu_enc_finish_encode sample_config
        (ok_env\<lparr>output_info := zero_output_info\<lparr>enc_src_idx := - 1, recon_frame_index := - 1,
                                                   bitstream_buffer := 0x1000\<rparr>\<rparr>)
        (zero_instance\<lparr>state := VPU_INST_STATE_STOP, sequence := 3, processed_buf_num := 3,
                       dst_rdy_queue := [zero_buffer\<lparr>dma_addr0 := 0x1000, payload0 := 5\<rparr>]\<rparr>)
        False)
       = [(zero_buffer\<lparr>dma_addr0 := 0x1000, payload0 := 0, vb_field := 1,
                        vb_flags := 0x00100000\<rparr>, VB2_BUF_STATE_DONE)]"
  using encode_end_event[of sample_config
        "ok_env\<lparr>output_info := zero_output_info\<lparr>enc_src_idx := - 1, recon_frame_index := - 1,
                                                   bitstream_buffer := 0x1000\<rparr>\<rparr>"
        "zero_instance\<lparr>state := VPU_INST_STATE_STOP, sequence := 3, processed_buf_num := 3,
                       dst_rdy_queue := [zero_buffer\<lparr>dma_addr0 := 0x1000, payload0 := 5\<rparr>]\<rparr>" 0]
  by (simp add: sample_config_def ok_env_def zero_output_info_def zero_instance_def
        zero_buffer_def wave6_get_dst_buf_by_addr_def V4L2_FIELD_NONE_def V4L2_BUF_FLAG_LAST_def)

section \<open>Lifecycle of the state\<close>
































text \<open>
  An encode cycle builds an end-of-stream request only when the state is STOP,
  and the state is still STOP when the request is handed to the firmware.
\<close>

lemma src_request_src_end: "src_end (src_request env inst b pic) = src_end pic"
  by (simp add: src_request_def Let_def)

lemma submit_request_submitted_eq:
  "submitted (submit_request env inst src dst pic) = Some (p, i) \<Longrightarrow>
     p = pic \<and> state i = state inst"
  by (auto simp add: submit_request_def Let_def split: if_splits option.splits)

lemma src_end_only_in_stop:
  assumes "submitted (wave6_vpu_enc_start_encode env inst) = Some (pic, i)" "src_end pic"
  shows "state inst = VPU_INST_STATE_STOP \<and> state i = VPU_INST_STATE_STOP"
proof -
  have z: "\<not> src_end (zero_enc_param\<lparr>pic_stream_buffer_addr := a, pic_stream_buffer_size := b\<rparr>)"
    for a b by (simp add: zero_enc_param_def)
  show ?thesis
    using assms z
    by (auto simp add: wave6_vpu_enc_start_encode_def Let_def src_request_src_end
          split: if_splits option.splits dest!: submit_request_submitted_eq)
qed








section \<open>Writing the ROI map\<close>


subsection \<open>Iterations that update a list\<close>








subsection \<open>Arithmetic of the group layout\<close>






subsection \<open>The macros without wrap-around\<close>







subsection \<open>Indices of the map in natural numbers\<close>










subsection \<open>The geometry in natural numbers\<close>




subsection \<open>The write\<close>




end
